theory Spec2Isabelle
  imports Main "HOL-Library.Sublist" "HOL-Library.Word"
begin

section \<open>JavaScript values\<close>

text \<open>
  The Worker (\<^verbatim>\<open>src/index.ts\<close>) and the browser script (\<^verbatim>\<open>public/chat.js\<close>) handle
  values that come out of \<^verbatim>\<open>JSON.parse\<close> or out of the inference binding, and they probe
  them dynamically (\<^verbatim>\<open>typeof\<close>, \<^verbatim>\<open>in\<close>, truthiness, property reads). The model keeps
  that: a value is a \<open>jsval\<close>, an object is the list of its own properties (read with
  \<open>map_of\<close>), and a thrown exception is the \<open>Inl\<close> of a sum.

  Numbers carry an integer: the program only ever tests a number for truthiness
  (zero or not), it never computes with one.
\<close>

datatype js_error = SyntaxError | TypeError | InferenceError

datatype jsval =
    Undefined
  | Null
  | Bool bool
  | Num int
  | Str string
  | Arr "jsval list"
  | Obj "(string \<times> jsval) list"

text \<open>
  \<^verbatim>\<open>v.k\<close> for the property names the program reads (\<^verbatim>\<open>messages\<close>, \<^verbatim>\<open>role\<close>,
  \<^verbatim>\<open>response\<close>, \<^verbatim>\<open>result\<close>): reading a property of \<^verbatim>\<open>null\<close> or \<^verbatim>\<open>undefined\<close>
  throws a TypeError (\<open>get_prop\<close>); booleans, numbers, strings and arrays have no
  property of these names, so the read gives \<^verbatim>\<open>undefined\<close>; an object gives the
  property's value, or \<^verbatim>\<open>undefined\<close> when it has none (\<open>read_prop\<close>).
\<close>

fun read_prop :: "jsval \<Rightarrow> string \<Rightarrow> jsval" where
  "read_prop (Obj kvs) k = (case map_of kvs k of None \<Rightarrow> Undefined | Some v \<Rightarrow> v)"
| "read_prop v k = Undefined"

definition get_prop :: "jsval \<Rightarrow> string \<Rightarrow> js_error + jsval" where
  "get_prop v k = (if v = Undefined \<or> v = Null then Inl TypeError else Inr (read_prop v k))"

text \<open>\<^verbatim>\<open>k in v\<close>, used by the source only after \<^verbatim>\<open>v && typeof v === "object"\<close>.\<close>

fun has_prop :: "string \<Rightarrow> jsval \<Rightarrow> bool" where
  "has_prop k (Obj kvs) = (map_of kvs k \<noteq> None)"
| "has_prop k v = False"

text \<open>\<^verbatim>\<open>typeof v === "string"\<close> and \<^verbatim>\<open>typeof v === "object"\<close> (true of \<^verbatim>\<open>null\<close> too).\<close>

fun typeof_string :: "jsval \<Rightarrow> bool" where
  "typeof_string (Str s) = True"
| "typeof_string v = False"

fun typeof_object :: "jsval \<Rightarrow> bool" where
  "typeof_object Null = True"
| "typeof_object (Arr xs) = True"
| "typeof_object (Obj kvs) = True"
| "typeof_object v = False"

text \<open>Truthiness, as \<^verbatim>\<open>if (v)\<close> and \<^verbatim>\<open>v && ...\<close> test it.\<close>

fun truthy :: "jsval \<Rightarrow> bool" where
  "truthy Undefined = False"
| "truthy Null = False"
| "truthy (Bool b) = b"
| "truthy (Num n) = (n \<noteq> 0)"
| "truthy (Str s) = (s \<noteq> [])"
| "truthy (Arr xs) = True"
| "truthy (Obj kvs) = True"

text \<open>The string a value of type string holds (only applied under \<open>typeof_string\<close>).\<close>

fun str_of :: "jsval \<Rightarrow> string" where
  "str_of (Str s) = s"
| "str_of v = []"

text \<open>
  Whether the conversion of a value to a string, as a template literal does it,
  returns. It does for \<^verbatim>\<open>undefined\<close>, \<^verbatim>\<open>null\<close>, booleans, numbers and strings. An
  object is converted by its \<^verbatim>\<open>toString\<close>, which is \<^verbatim>\<open>Object.prototype.toString\<close>
  unless the object has an own property of that name; the values of this model hold no
  function, so an own \<^verbatim>\<open>toString\<close> is not callable, \<^verbatim>\<open>valueOf\<close> gives no primitive
  either, and the conversion throws a TypeError. An array is converted by joining the
  conversions of its entries (\<^verbatim>\<open>null\<close> and \<^verbatim>\<open>undefined\<close> entries as the empty
  string), so it throws when the conversion of an entry does.
\<close>

fun tostring_ok :: "jsval \<Rightarrow> bool" where
  "tostring_ok (Obj kvs) = (map_of kvs ''toString'' = None)"
| "tostring_ok (Arr xs) = list_all tostring_ok xs"
| "tostring_ok v = True"

section \<open>The platform\<close>

text \<open>
  \<^verbatim>\<open>JSON.parse\<close>, \<^verbatim>\<open>JSON.stringify\<close>, \<^verbatim>\<open>String.prototype.trim\<close> and
  \<^verbatim>\<open>TextDecoder.decode\<close> belong to the JavaScript platform, not to the repository. They
  are parameters of the model: every theorem below holds for whatever these four
  functions are. \<open>JSON_parse\<close> either throws or returns a value.
\<close>

record runtime =
  JSON_parse :: "string \<Rightarrow> js_error + jsval"
  JSON_stringify :: "jsval \<Rightarrow> string"
  trim :: "string \<Rightarrow> string"
  TextDecoder_decode :: "8 word list \<Rightarrow> string"

section \<open>The Worker: \<^verbatim>\<open>src/index.ts\<close>\<close>

definition MODEL_ID :: string where
  "MODEL_ID = ''@cf/meta/llama-3.3-70b-instruct-fp8-fast''"

definition SYSTEM_PROMPT :: string where
  "SYSTEM_PROMPT =
     ''You are a helpful, friendly assistant. Provide concise and accurate responses.''"

text \<open>The object literal \<^verbatim>\<open>{ role: "system", content: SYSTEM_PROMPT }\<close>.\<close>

definition system_message :: jsval where
  "system_message = Obj [(''role'', Str ''system''), (''content'', Str SYSTEM_PROMPT)]"

subsection \<open>Requests, responses, bindings\<close>

text \<open>
  A request is what the Worker reads of it: the path of its URL, its method (\<open>req_method\<close>), the value
  of \<^verbatim>\<open>headers.get("Upgrade")\<close> (\<open>None\<close> for \<^verbatim>\<open>null\<close>) and the text of its body (empty
  when the request has no body). \<^verbatim>\<open>request.json()\<close> is \<^verbatim>\<open>JSON.parse\<close> of that text.
\<close>

record request =
  pathname :: string
  req_method :: string
  upgrade :: "string option"
  req_body :: string

datatype ws_end = ClientEnd | ServerEnd

record response =
  status :: nat
  body :: "string option"
  headers :: "(string \<times> string) list"
  webSocket :: "ws_end option"

text \<open>
  The arguments of one \<^verbatim>\<open>env.AI.run\<close> call: the model, the \<^verbatim>\<open>messages\<close> and
  \<^verbatim>\<open>max_tokens\<close> of the second argument, and whether the third asks for the raw
  response.
\<close>

record ai_call =
  model :: string
  messages :: "jsval list"
  max_tokens :: nat
  returnRawResponse :: bool

text \<open>
  The bindings of \<^verbatim>\<open>Env\<close>. \<^verbatim>\<open>AI.run\<close> is one method: called with
  \<^verbatim>\<open>returnRawResponse\<close> it resolves to a Response (\<open>AI_run_raw\<close>), without it to the
  model's output value (\<open>AI_run\<close>); in both forms it may throw. An \<open>env\<close> stands for how
  the bindings behave at the time of the call.
\<close>

record env =
  ASSETS_fetch :: "request \<Rightarrow> response"
  AI_run_raw :: "ai_call \<Rightarrow> js_error + response"
  AI_run :: "ai_call \<Rightarrow> js_error + jsval"

text \<open>
  The server end of a WebSocketPair: whether \<^verbatim>\<open>accept()\<close> was called, whether it was
  closed, the text frames passed to \<^verbatim>\<open>send\<close> (oldest first) and the inference calls its
  message listener made (oldest first). \<^verbatim>\<open>send\<close> is taken to succeed.
\<close>

record conn =
  accepted :: bool
  closed :: bool
  sent :: "string list"
  ws_calls :: "ai_call list"

text \<open>
  What handling one request does: the response, the inference calls made, and the
  server end of the WebSocketPair it created, if it created one.
\<close>

record effects =
  resp :: response
  ai_calls :: "ai_call list"
  ws_pair :: "conn option"

subsection \<open>The system prompt step (lines 66-73 and 122-126)\<close>

text \<open>
  \<^verbatim>\<open>const { messages = [] } = v\<close>: destructuring \<^verbatim>\<open>null\<close> or \<^verbatim>\<open>undefined\<close> throws;
  the default applies when the property reads as \<^verbatim>\<open>undefined\<close>.
\<close>

definition destructure_messages :: "jsval \<Rightarrow> js_error + jsval" where
  "destructure_messages v =
     (case get_prop v ''messages'' of
        Inl e \<Rightarrow> Inl e
      | Inr m \<Rightarrow> Inr (if m = Undefined then Arr [] else m))"

text \<open>The callback \<^verbatim>\<open>(msg) => msg.role === "system"\<close>.\<close>

definition role_is_system :: "jsval \<Rightarrow> js_error + bool" where
  "role_is_system msg =
     (case get_prop msg ''role'' of
        Inl e \<Rightarrow> Inl e
      | Inr r \<Rightarrow> Inr (r = Str ''system''))"

text \<open>
  \<^verbatim>\<open>Array.prototype.some\<close> with that callback: left to right, stops at the first
  entry for which the callback is true, and a throwing callback ends the scan.
\<close>

fun some_system :: "jsval list \<Rightarrow> js_error + bool" where
  "some_system [] = Inr False"
| "some_system (msg # rest) =
     (case role_is_system msg of
        Inl e \<Rightarrow> Inl e
      | Inr b \<Rightarrow> (if b then Inr True else some_system rest))"

text \<open>
  \<^verbatim>\<open>if (!messages.some(...)) messages.unshift({...})\<close>. Only an array has a method
  \<^verbatim>\<open>some\<close>; on any other value the call throws a TypeError. The result is the array
  as the inference call will see it.
\<close>

definition add_system_prompt :: "jsval \<Rightarrow> js_error + jsval list" where
  "add_system_prompt m =
     (case m of
        Arr msgs \<Rightarrow>
          (case some_system msgs of
             Inl e \<Rightarrow> Inl e
           | Inr found \<Rightarrow> Inr (if \<not> found then system_message # msgs else msgs))
      | _ \<Rightarrow> Inl TypeError)"

subsection \<open>\<^verbatim>\<open>handleChatRequest\<close>\<close>

definition error_response :: "runtime \<Rightarrow> response" where
  "error_response rt =
     \<lparr>status = 500,
      body = Some (JSON_stringify rt (Obj [(''error'', Str ''Failed to process request'')])),
      headers = [(''content-type'', ''application/json'')],
      webSocket = None\<rparr>"

text \<open>Lines 66-73: the message list handed to the inference call, or the exception.\<close>

definition chat_messages :: "runtime \<Rightarrow> request \<Rightarrow> js_error + jsval list" where
  "chat_messages rt request =
     (case JSON_parse rt (req_body request) of
        Inl e \<Rightarrow> Inl e
      | Inr parsed \<Rightarrow>
          (case destructure_messages parsed of
             Inl e \<Rightarrow> Inl e
           | Inr m \<Rightarrow> add_system_prompt m))"

definition handleChatRequest :: "runtime \<Rightarrow> env \<Rightarrow> request \<Rightarrow> effects" where
  "handleChatRequest rt e request =
     (case chat_messages rt request of
        Inl err \<Rightarrow> \<lparr>resp = error_response rt, ai_calls = [], ws_pair = None\<rparr>
      | Inr msgs \<Rightarrow>
          (let call = \<lparr>model = MODEL_ID, messages = msgs, max_tokens = 1024,
                       returnRawResponse = True\<rparr>
           in case AI_run_raw e call of
                Inl err \<Rightarrow> \<lparr>resp = error_response rt, ai_calls = [call], ws_pair = None\<rparr>
              | Inr r \<Rightarrow> \<lparr>resp = r, ai_calls = [call], ws_pair = None\<rparr>))"

subsection \<open>\<^verbatim>\<open>handleWebSocket\<close>\<close>

datatype ws_data = Text string | Binary "8 word list"

text \<open>
  Lines 118-121: \<^verbatim>\<open>event.data\<close> is a string, or an ArrayBuffer that is decoded.
  Lines 122-126: parse, destructure, system prompt.
\<close>

definition dataString :: "runtime \<Rightarrow> ws_data \<Rightarrow> string" where
  "dataString rt d = (case d of Text s \<Rightarrow> s | Binary b \<Rightarrow> TextDecoder_decode rt b)"

definition ws_messages :: "runtime \<Rightarrow> ws_data \<Rightarrow> js_error + jsval list" where
  "ws_messages rt d =
     (case JSON_parse rt (dataString rt d) of
        Inl e \<Rightarrow> Inl e
      | Inr parsed \<Rightarrow>
          (case destructure_messages parsed of
             Inl e \<Rightarrow> Inl e
           | Inr m \<Rightarrow> add_system_prompt m))"

text \<open>
  Lines 136-145: the text taken from the inference result. The property reads happen
  under \<^verbatim>\<open>aiResponse && ...\<close>, where the value is neither \<^verbatim>\<open>null\<close> nor
  \<^verbatim>\<open>undefined\<close>, so they cannot throw.
\<close>

definition extract_text :: "jsval \<Rightarrow> string" where
  "extract_text aiResponse =
     (if typeof_string aiResponse then str_of aiResponse
      else if truthy aiResponse \<and> typeof_object aiResponse then
        (if has_prop ''response'' aiResponse
            \<and> typeof_string (read_prop aiResponse ''response'')
         then str_of (read_prop aiResponse ''response'')
         else if has_prop ''result'' aiResponse
            \<and> typeof_string (read_prop aiResponse ''result'')
         then str_of (read_prop aiResponse ''result'')
         else ''[No response]'')
      else ''[No response]'')"

definition apology :: string where
  "apology = ''Sorry, there was an error processing your request.''"

text \<open>
  The try block of the message listener (lines 118-145) on one inbound message: the
  inference calls it makes, and the text it goes on to send, or the exception it raises.
\<close>

definition ws_try :: "runtime \<Rightarrow> env \<Rightarrow> ws_data \<Rightarrow> ai_call list \<times> (js_error + string)" where
  "ws_try rt e d =
     (case ws_messages rt d of
        Inl err \<Rightarrow> ([], Inl err)
      | Inr msgs \<Rightarrow>
          (let call = \<lparr>model = MODEL_ID, messages = msgs, max_tokens = 1024,
                       returnRawResponse = False\<rparr>
           in case AI_run e call of
                Inl err \<Rightarrow> ([call], Inl err)
              | Inr aiResponse \<Rightarrow> ([call], Inr (extract_text aiResponse))))"

text \<open>
  The message listener (lines 116-150): line 146 sends the reply frame, the catch block
  (line 148) the apology frame. Nothing else of the socket changes.
\<close>

definition ws_onmessage :: "runtime \<Rightarrow> env \<Rightarrow> ws_data \<Rightarrow> conn \<Rightarrow> conn" where
  "ws_onmessage rt e d c =
     (case ws_try rt e d of
        (calls, Inl err) \<Rightarrow>
          c\<lparr>sent := sent c @ [JSON_stringify rt (Obj [(''response'', Str apology)])],
            ws_calls := ws_calls c @ calls\<rparr>
      | (calls, Inr text) \<Rightarrow>
          c\<lparr>sent := sent c @ [JSON_stringify rt (Obj [(''response'', Str text)])],
            ws_calls := ws_calls c @ calls\<rparr>)"

text \<open>
  The upgrade (lines 108-114 and 156-159). A pair is created only past the header
  check; its server end is accepted and the client end goes into the response.
\<close>

definition handleWebSocket :: "request \<Rightarrow> effects" where
  "handleWebSocket request =
     (if upgrade request \<noteq> Some ''websocket'' then
        \<lparr>resp = \<lparr>status = 426, body = Some ''Expected Upgrade: websocket'', headers = [],
                  webSocket = None\<rparr>,
         ai_calls = [], ws_pair = None\<rparr>
      else
        \<lparr>resp = \<lparr>status = 101, body = None, headers = [], webSocket = Some ClientEnd\<rparr>,
         ai_calls = [],
         ws_pair = Some \<lparr>accepted = True, closed = False, sent = [], ws_calls = []\<rparr>\<rparr>)"

subsection \<open>The router: \<^verbatim>\<open>fetch\<close>\<close>

definition fetch :: "runtime \<Rightarrow> env \<Rightarrow> request \<Rightarrow> effects" where
  "fetch rt e request =
     (if pathname request = ''/ws'' then handleWebSocket request
      else if pathname request = ''/'' \<or> \<not> prefix ''/api/'' (pathname request) then
        \<lparr>resp = ASSETS_fetch e request, ai_calls = [], ws_pair = None\<rparr>
      else if pathname request = ''/api/chat'' then
        (if req_method request = ''POST'' then handleChatRequest rt e request
         else \<lparr>resp = \<lparr>status = 405, body = Some ''Method not allowed'', headers = [],
                       webSocket = None\<rparr>,
               ai_calls = [], ws_pair = None\<rparr>)
      else \<lparr>resp = \<lparr>status = 404, body = Some ''Not found'', headers = [], webSocket = None\<rparr>,
            ai_calls = [], ws_pair = None\<rparr>)"

section \<open>The browser script: \<^verbatim>\<open>public/chat.js\<close>\<close>

text \<open>
  The state the script keeps: its module variables \<^verbatim>\<open>chatHistory\<close>,
  \<^verbatim>\<open>isProcessing\<close>, \<^verbatim>\<open>socketReady\<close>, and what it reads and writes of the page:
  the value and the disabled flag of the input, the disabled flag of the button, whether
  the typing indicator has the class \<^verbatim>\<open>visible\<close>, and the children of the chat log, each
  with the role of its class name and the value whose string is put in it. \<open>outbox\<close> lists the frames
  that \<^verbatim>\<open>socket.send\<close> accepted, oldest first. Focus, scrolling and the height of the
  input are left out.
\<close>

record client =
  chatHistory :: "jsval list"
  isProcessing :: bool
  socketReady :: bool
  userInput_value :: string
  userInput_disabled :: bool
  sendButton_disabled :: bool
  typing_visible :: bool
  chatMessages :: "(string \<times> jsval) list"
  outbox :: "string list"

definition greeting :: jsval where
  "greeting =
     Obj [(''role'', Str ''assistant''),
          (''content'', Str (''Hello! I'' @ [CHR 0x27] @
             ''m an LLM chat app powered by Cloudflare Workers AI. How can I help you today?''))]"

text \<open>
  Loading the script (lines 14-25) on a page: the history holds the greeting, both flags
  are false, nothing has been sent. The page itself is not part of the repository's
  script, so it is a parameter.
\<close>

definition script_load :: "client \<Rightarrow> client" where
  "script_load page =
     page\<lparr>chatHistory := [greeting], isProcessing := False, socketReady := False,
          outbox := []\<rparr>"

text \<open>
  \<^verbatim>\<open>addMessageToChat\<close> (lines 117-125). The template literal of line 120 converts
  \<^verbatim>\<open>content\<close> to a string; when that throws, the element has not been appended yet
  and the exception leaves the function.
\<close>

definition addMessageToChat :: "string \<Rightarrow> jsval \<Rightarrow> client \<Rightarrow> js_error + client" where
  "addMessageToChat r c st =
     (if tostring_ok c then Inr (st\<lparr>chatMessages := chatMessages st @ [(r, c)]\<rparr>)
      else Inl TypeError)"

text \<open>The last five statements of the message listener and of the catch block.\<close>

definition release :: "client \<Rightarrow> client" where
  "release st =
     st\<lparr>typing_visible := False, isProcessing := False, userInput_disabled := False,
        sendButton_disabled := False\<rparr>"

text \<open>
  The message listener (lines 43-59) on a frame whose \<^verbatim>\<open>event.data\<close> is a text. An
  exception of \<^verbatim>\<open>JSON.parse\<close>, of the read of \<^verbatim>\<open>data.response\<close> or of
  \<^verbatim>\<open>addMessageToChat\<close> ends the try block: what follows in it, the push onto the
  history included, is skipped.
\<close>

definition onmessage :: "runtime \<Rightarrow> string \<Rightarrow> client \<Rightarrow> client" where
  "onmessage rt d st =
     release
       (case JSON_parse rt d of
          Inl e \<Rightarrow> st
        | Inr parsed \<Rightarrow>
            (case get_prop parsed ''response'' of
               Inl e \<Rightarrow> st
             | Inr r \<Rightarrow>
                 (if truthy r then
                    (case addMessageToChat ''assistant'' r st of
                       Inl e \<Rightarrow> st
                     | Inr st1 \<Rightarrow>
                         st1\<lparr>chatHistory := chatHistory st @
                           [Obj [(''role'', Str ''assistant''), (''content'', r)]]\<rparr>)
                  else st)))"

text \<open>
  \<^verbatim>\<open>sendMessage\<close> (lines 84-112). \<open>send_throws\<close> says whether the call
  \<^verbatim>\<open>socket.send(JSON.stringify(...))\<close> raises this time. The apology of the catch block
  has the same text as the Worker's. The call of \<^verbatim>\<open>addMessageToChat\<close> in line 90 is
  outside the try block, the one of line 102 inside the catch block: an exception of
  either would leave \<^verbatim>\<open>sendMessage\<close> with the statements after it not run.
\<close>

definition sendMessage :: "runtime \<Rightarrow> bool \<Rightarrow> client \<Rightarrow> client" where
  "sendMessage rt send_throws st =
     (let message = trim rt (userInput_value st) in
      if message = [] \<or> isProcessing st \<or> \<not> socketReady st then st
      else
        (let st0 = st\<lparr>isProcessing := True, userInput_disabled := True,
                       sendButton_disabled := True\<rparr>
         in case addMessageToChat ''user'' (Str message) st0 of
              Inl e \<Rightarrow> st0
            | Inr st_shown \<Rightarrow>
                (let st1 = st_shown
                       \<lparr>userInput_value := [], typing_visible := True,
                        chatHistory := chatHistory st @
                          [Obj [(''role'', Str ''user''), (''content'', Str message)]]\<rparr>
                 in if send_throws then
                      (case addMessageToChat ''assistant'' (Str apology) st1 of
                         Inl e \<Rightarrow> st1
                       | Inr st2 \<Rightarrow> release st2)
                    else st1\<lparr>outbox := outbox st1 @
                           [JSON_stringify rt (Obj [(''messages'', Arr (chatHistory st1))])]\<rparr>)))"

text \<open>
  What can happen to the script after it is loaded: the socket opens or closes (lines
  32-41; the reconnect after a close makes a new socket and changes none of the fields),
  the user edits the input, \<^verbatim>\<open>sendMessage\<close> is called (Enter or the button), a text
  frame arrives.
\<close>

datatype event = Open | Close | Input string | Send bool | Message string

fun step :: "runtime \<Rightarrow> client \<Rightarrow> event \<Rightarrow> client" where
  "step rt st Open = st\<lparr>socketReady := True\<rparr>"
| "step rt st Close = st\<lparr>socketReady := False\<rparr>"
| "step rt st (Input s) = st\<lparr>userInput_value := s\<rparr>"
| "step rt st (Send send_throws) = sendMessage rt send_throws st"
| "step rt st (Message d) = onmessage rt d st"

definition run :: "runtime \<Rightarrow> client \<Rightarrow> event list \<Rightarrow> client" where
  "run rt st evs = foldl (step rt) st evs"

section \<open>A platform for the examples\<close>

text \<open>
  The closed examples need the platform functions at a few inputs. \<open>example_parse\<close>
  agrees with \<^verbatim>\<open>JSON.parse\<close> on the texts it lists and on the empty text (a syntax
  error); \<open>example_stringify\<close> prints values built from \<^verbatim>\<open>null\<close>, booleans, arrays,
  objects and strings that need no escaping the way \<^verbatim>\<open>JSON.stringify\<close> does;
  \<open>example_trim\<close> strips ASCII white space from both ends.
\<close>

definition example_parse :: "string \<Rightarrow> js_error + jsval" where
  "example_parse s =
     (if s = ''{}'' then Inr (Obj [])
      else if s = ''{\"messages\":[{\"role\":\"user\",\"content\":\"hi\"}]}'' then
        Inr (Obj [(''messages'',
               Arr [Obj [(''role'', Str ''user''), (''content'', Str ''hi'')]])])
      else if s = ''{\"response\":\"hello\"}'' then Inr (Obj [(''response'', Str ''hello'')])
      else if s = ''{\"response\":\"\"}'' then Inr (Obj [(''response'', Str [])])
      else if s = ''{\"response\":{\"toString\":1}}'' then
        Inr (Obj [(''response'', Obj [(''toString'', Num 1)])])
      else Inl SyntaxError)"

fun join :: "string \<Rightarrow> string list \<Rightarrow> string" where
  "join sep [] = []"
| "join sep [x] = x"
| "join sep (x # y # ys) = x @ sep @ join sep (y # ys)"

fun example_stringify :: "jsval \<Rightarrow> string" where
  "example_stringify (Str s) = [CHR 0x22] @ s @ [CHR 0x22]"
| "example_stringify (Bool b) = (if b then ''true'' else ''false'')"
| "example_stringify (Arr xs) = ''['' @ join '','' (map example_stringify xs) @ '']''"
| "example_stringify (Obj kvs) =
     ''{'' @ join '','' (map (\<lambda>(k, v). [CHR 0x22] @ k @ [CHR 0x22] @ '':'' @ example_stringify v) kvs)
       @ ''}''"
| "example_stringify v = ''null''"

definition example_trim :: "string \<Rightarrow> string" where
  "example_trim s =
     (let sp = (\<lambda>c. c \<in> set [CHR '' '', CHR 0x09, CHR 0x0A, CHR 0x0B, CHR 0x0C, CHR 0x0D])
      in rev (dropWhile sp (rev (dropWhile sp s))))"

definition example_rt :: runtime where
  "example_rt =
     \<lparr>JSON_parse = example_parse, JSON_stringify = example_stringify, trim = example_trim,
      TextDecoder_decode = map (\<lambda>w. char_of (unat w))\<rparr>"

text \<open>
  Bindings for the examples: the asset store answers 200, the inference binding answers
  with the text \<^verbatim>\<open>hello\<close>.
\<close>

definition example_env :: env where
  "example_env =
     \<lparr>ASSETS_fetch = (\<lambda>r. \<lparr>status = 200, body = Some ''<html></html>'', headers = [],
                             webSocket = None\<rparr>),
      AI_run_raw = (\<lambda>c. Inr \<lparr>status = 200, body = Some ''data: hello'', headers = [],
                              webSocket = None\<rparr>),
      AI_run = (\<lambda>c. Inr (Str ''hello''))\<rparr>"

text \<open>Bindings whose inference call throws.\<close>

definition failing_env :: env where
  "failing_env =
     example_env\<lparr>AI_run_raw := (\<lambda>c. Inl InferenceError), AI_run := (\<lambda>c. Inl InferenceError)\<rparr>"

text \<open>Inputs of the examples.\<close>

definition hi_text :: string where
  "hi_text = ''{\"messages\":[{\"role\":\"user\",\"content\":\"hi\"}]}''"

definition hi_message :: jsval where
  "hi_message = Obj [(''role'', Str ''user''), (''content'', Str ''hi'')]"

definition fresh_conn :: conn where
  "fresh_conn = \<lparr>accepted = True, closed = False, sent = [], ws_calls = []\<rparr>"

definition post_chat :: "string \<Rightarrow> request" where
  "post_chat b = \<lparr>pathname = ''/api/chat'', req_method = ''POST'', upgrade = None, req_body = b\<rparr>"

definition get_request :: "string \<Rightarrow> request" where
  "get_request p = \<lparr>pathname = p, req_method = ''GET'', upgrade = None, req_body = []\<rparr>"

section \<open>Notions the claims are stated in\<close>


definition nullish :: "jsval \<Rightarrow> bool" where
  "nullish v = (v = Undefined \<or> v = Null)"

text \<open>The inference calls of the two paths, on a given message list.\<close>

definition chat_call :: "jsval list \<Rightarrow> ai_call" where
  "chat_call msgs =
     \<lparr>model = MODEL_ID, messages = msgs, max_tokens = 1024, returnRawResponse = True\<rparr>"

definition ws_call :: "jsval list \<Rightarrow> ai_call" where
  "ws_call msgs =
     \<lparr>model = MODEL_ID, messages = msgs, max_tokens = 1024, returnRawResponse = False\<rparr>"

text \<open>The frame \<^verbatim>\<open>JSON.stringify({ response: text })\<close>.\<close>

definition reply_frame :: "runtime \<Rightarrow> string \<Rightarrow> string" where
  "reply_frame rt text = JSON_stringify rt (Obj [(''response'', Str text)])"

text \<open>
  The reply text as the specification words it: the result itself if it is a string;
  else the string-valued field \<^verbatim>\<open>response\<close> of the result object; else its
  string-valued field \<^verbatim>\<open>result\<close>; else the placeholder.
\<close>

definition string_field :: "jsval \<Rightarrow> string \<Rightarrow> string option" where
  "string_field r k =
     (case r of
        Obj kvs \<Rightarrow> (case map_of kvs k of Some (Str s) \<Rightarrow> Some s | _ \<Rightarrow> None)
      | _ \<Rightarrow> None)"

definition spec_reply_text :: "jsval \<Rightarrow> string" where
  "spec_reply_text r =
     (case r of
        Str s \<Rightarrow> s
      | _ \<Rightarrow>
        (case string_field r ''response'' of
           Some s \<Rightarrow> s
         | None \<Rightarrow>
           (case string_field r ''result'' of
              Some s \<Rightarrow> s
            | None \<Rightarrow> ''[No response]'')))"

text \<open>The entries the script pushes, and the frame \<^verbatim>\<open>JSON.stringify({ messages: h })\<close>.\<close>

definition user_entry :: "string \<Rightarrow> jsval" where
  "user_entry m = Obj [(''role'', Str ''user''), (''content'', Str m)]"

definition assistant_entry :: "jsval \<Rightarrow> jsval" where
  "assistant_entry r = Obj [(''role'', Str ''assistant''), (''content'', r)]"

definition messages_frame :: "runtime \<Rightarrow> jsval list \<Rightarrow> string" where
  "messages_frame rt h = JSON_stringify rt (Obj [(''messages'', Arr h)])"

text \<open>The guard of \<^verbatim>\<open>sendMessage\<close> lets the call through.\<close>

definition can_send :: "runtime \<Rightarrow> client \<Rightarrow> bool" where
  "can_send rt st =
     (trim rt (userInput_value st) \<noteq> [] \<and> \<not> isProcessing st \<and> socketReady st)"

text \<open>The typing indicator is cleared and the controls are enabled.\<close>

definition released :: "client \<Rightarrow> bool" where
  "released st =
     (\<not> typing_visible st \<and> \<not> isProcessing st \<and> \<not> userInput_disabled st
      \<and> \<not> sendButton_disabled st)"

fun is_Message :: "event \<Rightarrow> bool" where
  "is_Message (Message d) = True"
| "is_Message ev = False"



text \<open>
  States of the examples: a page with nothing on it; the script loaded on it and
  connected, with \<^verbatim>\<open> hi \<close> typed; and the same while a reply is awaited.
\<close>

definition blank_page :: client where
  "blank_page =
     \<lparr>chatHistory = [], isProcessing = False, socketReady = False, userInput_value = [],
      userInput_disabled = False, sendButton_disabled = False, typing_visible = False,
      chatMessages = [], outbox = []\<rparr>"

definition ready :: client where
  "ready = (script_load blank_page)\<lparr>socketReady := True, userInput_value := '' hi ''\<rparr>"

definition waiting :: client where
  "waiting =
     (script_load blank_page)\<lparr>socketReady := True, isProcessing := True,
        userInput_disabled := True, sendButton_disabled := True, typing_visible := True\<rparr>"

section \<open>The Worker: system prompt, request body, routing\<close>




lemma add_system_prompt_Nil: "add_system_prompt (Arr []) = Inr [system_message]"
  by (simp add: add_system_prompt_def)

text \<open>
  An entry that is \<^verbatim>\<open>null\<close> is not a message object: the callback throws on it,
  unless an earlier entry of role "system" has ended the scan.
\<close>

lemma null_entry_throws:
  "add_system_prompt (Arr [Null]) = Inl TypeError"
  "add_system_prompt (Arr [system_message, Null]) = Inr [system_message, Null]"
  by (simp_all add: add_system_prompt_def role_is_system_def get_prop_def system_message_def)

lemma destructure_default:
  "\<not> nullish v \<Longrightarrow> read_prop v ''messages'' = Undefined \<Longrightarrow>
   destructure_messages v = Inr (Arr [])"
  by (simp add: destructure_messages_def get_prop_def nullish_def)

lemma ws_messages_hi: "ws_messages example_rt (Text hi_text) = Inr [system_message, hi_message]"
  by (simp add: ws_messages_def dataString_def example_rt_def example_parse_def hi_text_def
      hi_message_def destructure_messages_def get_prop_def add_system_prompt_def
      role_is_system_def)



text \<open>
  C2, as amended. A POST to \<^verbatim>\<open>/api/chat\<close> whose body is valid JSON, not \<^verbatim>\<open>null\<close>,
  and has no \<^verbatim>\<open>messages\<close> property is handled as \<^verbatim>\<open>messages = []\<close>: the inference
  call gets exactly one message, the default system message, and the response is the
  one the inference call returns (the 500 response only if that call throws). A body
  that makes \<^verbatim>\<open>request.json()\<close> throw (absent, empty, not JSON) forwards nothing and
  is answered with the 500 response.
\<close>

theorem chat_body_default:
  assumes "pathname request = ''/api/chat''" and "req_method request = ''POST''"
  shows "(JSON_parse rt (req_body request) = Inr v \<and> \<not> nullish v
            \<and> read_prop v ''messages'' = Undefined \<longrightarrow>
            fetch rt e request =
              \<lparr>resp = (case AI_run_raw e (chat_call [system_message]) of
                         Inl err \<Rightarrow> error_response rt | Inr r \<Rightarrow> r),
               ai_calls = [chat_call [system_message]], ws_pair = None\<rparr>)
       \<and> (JSON_parse rt (req_body request) = Inl err \<longrightarrow>
            fetch rt e request = \<lparr>resp = error_response rt, ai_calls = [], ws_pair = None\<rparr>
          \<and> status (error_response rt) = 500)"
proof -
  have f: "fetch rt e request = handleChatRequest rt e request"
    using assms by (simp add: fetch_def)
  show ?thesis
    unfolding f
    by (auto simp add: handleChatRequest_def chat_messages_def destructure_default
        add_system_prompt_Nil chat_call_def error_response_def split: sum.splits)
qed

theorem chat_body_default_witness:
  "fetch example_rt example_env (post_chat ''{}'') =
     \<lparr>resp = \<lparr>status = 200, body = Some ''data: hello'', headers = [], webSocket = None\<rparr>,
      ai_calls = [chat_call [system_message]], ws_pair = None\<rparr>
   \<and> fetch example_rt example_env (post_chat []) =
     \<lparr>resp = error_response example_rt, ai_calls = [], ws_pair = None\<rparr>"
proof -
  have p: "pathname (post_chat b) = ''/api/chat''" and q: "req_method (post_chat b) = ''POST''"
    for b
    by (simp_all add: post_chat_def)
  have h1: "JSON_parse example_rt (req_body (post_chat ''{}'')) = Inr (Obj [])
      \<and> \<not> nullish (Obj []) \<and> read_prop (Obj []) ''messages'' = Undefined"
    by (simp add: example_rt_def example_parse_def post_chat_def nullish_def)
  have h2: "JSON_parse example_rt (req_body (post_chat [])) = Inl SyntaxError"
    by (simp add: example_rt_def example_parse_def post_chat_def)
  have r: "AI_run_raw example_env (chat_call [system_message]) =
      Inr \<lparr>status = 200, body = Some ''data: hello'', headers = [], webSocket = None\<rparr>"
    by (simp add: example_env_def)
  show ?thesis
    using chat_body_default [OF p q, of example_rt "''{}''" "Obj []" example_env]
      chat_body_default [OF p q, of example_rt "[]" _ example_env SyntaxError] h1 h2 r
    by simp
qed

text \<open>
  The sentence of the specification fails on a POST with an empty body: parsing it
  throws, nothing is forwarded, and the response has status 500.
\<close>

theorem chat_bad_body_counterexample:
  "JSON_parse example_rt (req_body (post_chat [])) = Inl SyntaxError
   \<and> status (resp (fetch example_rt example_env (post_chat []))) = 500
   \<and> ai_calls (fetch example_rt example_env (post_chat [])) = []"
  by (simp add: fetch_def post_chat_def handleChatRequest_def chat_messages_def
      example_rt_def example_parse_def error_response_def)

text \<open>
  C3, as amended. The router answers 405 to any method other than POST on
  \<^verbatim>\<open>/api/chat\<close>, and 404 to any other path under \<^verbatim>\<open>/api/\<close>. A path outside
  \<^verbatim>\<open>/api/\<close> other than \<^verbatim>\<open>/ws\<close>, such as \<^verbatim>\<open>/unknown\<close>, is handed to the asset
  store, and the response is the store's.
\<close>

theorem router_status:
  "(pathname request = ''/api/chat'' \<and> req_method request \<noteq> ''POST'' \<longrightarrow>
      fetch rt e request =
        \<lparr>resp = \<lparr>status = 405, body = Some ''Method not allowed'', headers = [],
                 webSocket = None\<rparr>, ai_calls = [], ws_pair = None\<rparr>)
   \<and> (prefix ''/api/'' (pathname request) \<and> pathname request \<noteq> ''/api/chat'' \<longrightarrow>
      fetch rt e request =
        \<lparr>resp = \<lparr>status = 404, body = Some ''Not found'', headers = [], webSocket = None\<rparr>,
         ai_calls = [], ws_pair = None\<rparr>)
   \<and> (pathname request \<noteq> ''/ws'' \<and> \<not> prefix ''/api/'' (pathname request) \<longrightarrow>
      fetch rt e request = \<lparr>resp = ASSETS_fetch e request, ai_calls = [], ws_pair = None\<rparr>)"
  by (auto simp add: fetch_def)

theorem router_status_witness:
  "status (resp (fetch example_rt example_env (get_request ''/api/chat''))) = 405
   \<and> status (resp (fetch example_rt example_env (get_request ''/api/unknown''))) = 404
   \<and> resp (fetch example_rt example_env (get_request ''/unknown'')) =
       ASSETS_fetch example_env (get_request ''/unknown'')"
proof -
  have h1: "pathname (get_request ''/api/chat'') = ''/api/chat''
      \<and> req_method (get_request ''/api/chat'') \<noteq> ''POST''"
    by (simp add: get_request_def)
  have h2: "prefix ''/api/'' (pathname (get_request ''/api/unknown''))
      \<and> pathname (get_request ''/api/unknown'') \<noteq> ''/api/chat''"
    by (simp add: get_request_def)
  have h3: "pathname (get_request ''/unknown'') \<noteq> ''/ws''
      \<and> \<not> prefix ''/api/'' (pathname (get_request ''/unknown''))"
    by (simp add: get_request_def)
  show ?thesis
    using router_status [of "get_request ''/api/chat''" example_rt example_env]
      router_status [of "get_request ''/api/unknown''" example_rt example_env]
      router_status [of "get_request ''/unknown''" example_rt example_env] h1 h2 h3
    by simp
qed

text \<open>
  The sentence of the specification fails on GET \<^verbatim>\<open>/unknown\<close> with an asset store
  that answers 200: the router returns the store's response.
\<close>

theorem unknown_path_counterexample:
  "status (resp (fetch example_rt example_env (get_request ''/unknown''))) = 200"
  by (simp add: fetch_def get_request_def example_env_def)

section \<open>The Worker: WebSocket upgrade and replies\<close>

text \<open>
  C8. A request to \<^verbatim>\<open>/ws\<close> whose Upgrade header is not \<^verbatim>\<open>websocket\<close> (or is
  missing) gets status 426, no socket in the response, and no WebSocketPair is created;
  with \<^verbatim>\<open>Upgrade: websocket\<close> it gets status 101, the client end of a new pair in
  the response, and the server end is accepted.
\<close>

theorem upgrade_required:
  assumes "pathname request = ''/ws''"
  shows "(upgrade request \<noteq> Some ''websocket'' \<longrightarrow>
            status (resp (fetch rt e request)) = 426
          \<and> webSocket (resp (fetch rt e request)) = None
          \<and> ws_pair (fetch rt e request) = None)
       \<and> (upgrade request = Some ''websocket'' \<longrightarrow>
            status (resp (fetch rt e request)) = 101
          \<and> webSocket (resp (fetch rt e request)) = Some ClientEnd
          \<and> ws_pair (fetch rt e request) =
              Some \<lparr>accepted = True, closed = False, sent = [], ws_calls = []\<rparr>)"
  using assms by (simp add: fetch_def handleWebSocket_def)

theorem upgrade_required_witness:
  "status (resp (fetch example_rt example_env (get_request ''/ws''))) = 426
   \<and> ws_pair (fetch example_rt example_env (get_request ''/ws'')) = None
   \<and> status (resp (fetch example_rt example_env
        ((get_request ''/ws'')\<lparr>upgrade := Some ''websocket''\<rparr>))) = 101
   \<and> ws_pair (fetch example_rt example_env
        ((get_request ''/ws'')\<lparr>upgrade := Some ''websocket''\<rparr>)) = Some fresh_conn"
proof -
  have h1: "pathname (get_request ''/ws'') = ''/ws''"
    by (simp add: get_request_def)
  have h2: "pathname ((get_request ''/ws'')\<lparr>upgrade := Some ''websocket''\<rparr>) = ''/ws''"
    by (simp add: get_request_def)
  have h3: "upgrade (get_request ''/ws'') \<noteq> Some ''websocket''"
    by (simp add: get_request_def)
  show ?thesis
    using upgrade_required [OF h1, of example_rt example_env]
      upgrade_required [OF h2, of example_rt example_env] h3
    by (simp add: fresh_conn_def)
qed

lemma extract_text_spec: "extract_text r = spec_reply_text r"
proof (cases r)
  case (Obj kvs)
  show ?thesis
  proof (cases "map_of kvs ''response''")
    case None
    then show ?thesis using Obj
      by (cases "map_of kvs ''result''")
        (auto simp add: extract_text_def spec_reply_text_def string_field_def split: jsval.splits)
  next
    case (Some a)
    then show ?thesis using Obj
      by (cases "map_of kvs ''result''")
        (auto simp add: extract_text_def spec_reply_text_def string_field_def split: jsval.splits)
  qed
qed (simp_all add: extract_text_def spec_reply_text_def string_field_def)

text \<open>
  C4. Whatever value the inference call returns to the message listener, the text the
  listener takes from it is the one the specification's precedence gives (the string
  itself, else the string field \<^verbatim>\<open>response\<close>, else the string field \<^verbatim>\<open>result\<close>,
  else "[No response]"), and the one frame it sends is
  \<^verbatim>\<open>JSON.stringify({ response: text })\<close>.
\<close>

theorem reply_text_precedence:
  "extract_text r = spec_reply_text r
   \<and> (ws_messages rt d = Inr msgs \<and> AI_run e (ws_call msgs) = Inr r \<longrightarrow>
        sent (ws_onmessage rt e d c) = sent c @ [reply_frame rt (spec_reply_text r)])"
  by (simp add: extract_text_spec ws_onmessage_def ws_try_def ws_call_def reply_frame_def)

theorem reply_text_precedence_witness:
  "sent (ws_onmessage example_rt example_env (Text hi_text) fresh_conn) =
     [''{\"response\":\"hello\"}'']"
proof -
  have h: "ws_messages example_rt (Text hi_text) = Inr [system_message, hi_message]
      \<and> AI_run example_env (ws_call [system_message, hi_message]) = Inr (Str ''hello'')"
    by (simp add: ws_messages_hi example_env_def)
  show ?thesis
    using reply_text_precedence [of "Str ''hello''" example_rt "Text hi_text"
        "[system_message, hi_message]" example_env fresh_conn] h
    by (simp add: fresh_conn_def spec_reply_text_def reply_frame_def example_rt_def)
qed

text \<open>
  C5. When the try block of the message listener throws (the text does not parse, the
  message list cannot be prepared, or the inference call throws), the listener sends
  exactly one frame, the apology; the socket stays as open and as accepted as it was; and
  a later message on the same socket is answered with the frame a fresh socket would
  send for it.
\<close>

theorem ws_error_apology:
  "((JSON_parse rt (dataString rt d) = Inl err
       \<or> ws_messages rt d = Inl err
       \<or> ws_messages rt d = Inr msgs \<and> AI_run e (ws_call msgs) = Inl err)
      \<longrightarrow> snd (ws_try rt e d) = Inl err)
   \<and> (snd (ws_try rt e d) = Inl err \<longrightarrow>
        sent (ws_onmessage rt e d c) = sent c @ [reply_frame rt apology]
      \<and> closed (ws_onmessage rt e d c) = closed c
      \<and> accepted (ws_onmessage rt e d c) = accepted c
      \<and> sent (ws_onmessage rt e' d' (ws_onmessage rt e d c)) =
          sent c @ [reply_frame rt apology] @ sent (ws_onmessage rt e' d' fresh_conn))"
proof (intro conjI impI)
  assume "JSON_parse rt (dataString rt d) = Inl err
      \<or> ws_messages rt d = Inl err
      \<or> ws_messages rt d = Inr msgs \<and> AI_run e (ws_call msgs) = Inl err"
  then show "snd (ws_try rt e d) = Inl err"
    by (auto simp add: ws_try_def ws_messages_def ws_call_def)
next
  assume a: "snd (ws_try rt e d) = Inl err"
  then show "sent (ws_onmessage rt e d c) = sent c @ [reply_frame rt apology]"
    by (cases "ws_try rt e d") (simp add: ws_onmessage_def reply_frame_def)
  from a show "closed (ws_onmessage rt e d c) = closed c"
    by (cases "ws_try rt e d") (simp add: ws_onmessage_def)
  from a show "accepted (ws_onmessage rt e d c) = accepted c"
    by (cases "ws_try rt e d") (simp add: ws_onmessage_def)
  from a show "sent (ws_onmessage rt e' d' (ws_onmessage rt e d c)) =
      sent c @ [reply_frame rt apology] @ sent (ws_onmessage rt e' d' fresh_conn)"
    by (cases "ws_try rt e d"; cases "ws_try rt e' d'")
      (auto simp add: ws_onmessage_def reply_frame_def fresh_conn_def split: sum.splits)
qed

theorem ws_error_apology_witness:
  "sent (ws_onmessage example_rt example_env (Text hi_text)
      (ws_onmessage example_rt failing_env (Text hi_text) fresh_conn)) =
     [''{\"response\":\"Sorry, there was an error processing your request.\"}'',
      ''{\"response\":\"hello\"}'']
   \<and> closed (ws_onmessage example_rt failing_env (Text hi_text) fresh_conn) = False"
proof -
  have h: "ws_messages example_rt (Text hi_text) = Inr [system_message, hi_message]
      \<and> AI_run failing_env (ws_call [system_message, hi_message]) = Inl InferenceError"
    by (simp add: ws_messages_hi failing_env_def)
  have t: "ws_try example_rt example_env (Text hi_text) =
      ([ws_call [system_message, hi_message]], Inr ''hello'')"
    by (simp add: ws_try_def ws_messages_hi example_env_def extract_text_def ws_call_def)
  have r: "sent (ws_onmessage example_rt example_env (Text hi_text) fresh_conn) =
      [''{\"response\":\"hello\"}'']"
    by (simp add: ws_onmessage_def t fresh_conn_def) (simp add: example_rt_def)
  show ?thesis
    using ws_error_apology [of example_rt "Text hi_text" InferenceError
        "[system_message, hi_message]" failing_env fresh_conn example_env "Text hi_text"] h r
    by (simp add: fresh_conn_def reply_frame_def apology_def example_rt_def)
qed

section \<open>The browser script: receiving\<close>

lemma addMessageToChat_Str:
  "addMessageToChat r (Str m) st = Inr (st\<lparr>chatMessages := chatMessages st @ [(r, Str m)]\<rparr>)"
  by (simp add: addMessageToChat_def)

text \<open>
  A truthy \<^verbatim>\<open>response\<close> whose conversion to a string throws (an object with an own
  \<^verbatim>\<open>toString\<close> key, or an array holding one) ends the try block in
  \<^verbatim>\<open>addMessageToChat\<close>: neither the chat log nor the history grows.
\<close>

lemma unconvertible_response_skipped:
  "JSON_parse rt d = Inr v \<Longrightarrow> \<not> nullish v \<Longrightarrow> \<not> tostring_ok (read_prop v ''response'') \<Longrightarrow>
   chatMessages (onmessage rt d st) = chatMessages st
   \<and> chatHistory (onmessage rt d st) = chatHistory st"
  by (simp add: onmessage_def release_def get_prop_def nullish_def addMessageToChat_def)

lemma toString_key_response_skipped:
  "chatHistory (onmessage example_rt ''{\"response\":{\"toString\":1}}'' st) = chatHistory st
   \<and> chatMessages (onmessage example_rt ''{\"response\":{\"toString\":1}}'' st) = chatMessages st"
  by (simp add: onmessage_def example_rt_def example_parse_def get_prop_def release_def
      addMessageToChat_def)

text \<open>
  C6, as amended. On a text frame whose payload has a truthy \<^verbatim>\<open>response\<close> (for a
  string: not empty) that converts to a string (every string, number and boolean does),
  that value is appended to the visible chat log and, as an assistant entry, to the
  conversation history; when the frame does not parse, the payload is \<^verbatim>\<open>null\<close>, or its
  \<^verbatim>\<open>response\<close> is falsy or missing, neither changes. In every case the typing indicator
  is cleared and the controls are enabled again.
\<close>

theorem truthy_response_appended:
  "(JSON_parse rt d = Inr v \<and> \<not> nullish v \<and> truthy (read_prop v ''response'')
      \<and> tostring_ok (read_prop v ''response'') \<longrightarrow>
      chatMessages (onmessage rt d st) =
        chatMessages st @ [(''assistant'', read_prop v ''response'')]
    \<and> chatHistory (onmessage rt d st) =
        chatHistory st @ [assistant_entry (read_prop v ''response'')])
   \<and> (JSON_parse rt d = Inl err
        \<or> JSON_parse rt d = Inr v \<and> (nullish v \<or> \<not> truthy (read_prop v ''response''))
      \<longrightarrow>
      chatMessages (onmessage rt d st) = chatMessages st
    \<and> chatHistory (onmessage rt d st) = chatHistory st)
   \<and> released (onmessage rt d st)"
  by (auto simp add: onmessage_def release_def released_def get_prop_def nullish_def
      addMessageToChat_def assistant_entry_def split: sum.splits)

theorem truthy_response_appended_witness:
  "chatHistory (onmessage example_rt ''{\"response\":\"hello\"}'' waiting) =
     [greeting, assistant_entry (Str ''hello'')]
   \<and> chatMessages (onmessage example_rt ''{\"response\":\"hello\"}'' waiting) =
     [(''assistant'', Str ''hello'')]
   \<and> chatHistory (onmessage example_rt ''{\"response\":\"\"}'' waiting) = [greeting]
   \<and> released (onmessage example_rt ''{\"response\":\"hello\"}'' waiting)"
proof -
  let ?v = "Obj [(''response'', Str ''hello'')]"
  let ?w = "Obj [(''response'', Str [])]"
  have h1: "JSON_parse example_rt ''{\"response\":\"hello\"}'' = Inr ?v \<and> \<not> nullish ?v
      \<and> truthy (read_prop ?v ''response'') \<and> tostring_ok (read_prop ?v ''response'')"
    by (simp add: example_rt_def example_parse_def nullish_def)
  have h2: "JSON_parse example_rt ''{\"response\":\"\"}'' = Inr ?w
      \<and> (nullish ?w \<or> \<not> truthy (read_prop ?w ''response''))"
    by (simp add: example_rt_def example_parse_def)
  have v: "read_prop ?v ''response'' = Str ''hello''"
    by simp
  have s: "chatHistory waiting = [greeting] \<and> chatMessages waiting = []"
    by (simp add: waiting_def script_load_def blank_page_def)
  show ?thesis
    using truthy_response_appended [of example_rt "''{\"response\":\"hello\"}''" ?v waiting]
      truthy_response_appended [of example_rt "''{\"response\":\"\"}''" ?w waiting] h1 h2 s
    by (simp only: v) simp
qed

text \<open>
  The sentence of the specification fails on the frame \<^verbatim>\<open>{"response":""}\<close>: the
  payload has a \<^verbatim>\<open>response\<close> field, and neither the history nor the chat log grows.
\<close>

theorem empty_response_counterexample:
  "JSON_parse example_rt ''{\"response\":\"\"}'' = Inr (Obj [(''response'', Str [])])
   \<and> has_prop ''response'' (Obj [(''response'', Str [])])
   \<and> chatHistory (onmessage example_rt ''{\"response\":\"\"}'' waiting) = chatHistory waiting
   \<and> chatMessages (onmessage example_rt ''{\"response\":\"\"}'' waiting) = chatMessages waiting"
  by (simp add: onmessage_def example_rt_def example_parse_def get_prop_def release_def)

section \<open>The browser script: sending\<close>

lemma sendMessage_blocked: "\<not> can_send rt st \<Longrightarrow> sendMessage rt b st = st"
  by (auto simp add: sendMessage_def can_send_def Let_def)

lemma sendMessage_sent:
  "can_send rt st \<Longrightarrow>
   sendMessage rt False st =
     st\<lparr>isProcessing := True, userInput_disabled := True, sendButton_disabled := True,
        chatMessages := chatMessages st @ [(''user'', Str (trim rt (userInput_value st)))],
        userInput_value := [], typing_visible := True,
        chatHistory := chatHistory st @ [user_entry (trim rt (userInput_value st))],
        outbox := outbox st @
          [messages_frame rt (chatHistory st @ [user_entry (trim rt (userInput_value st))])]\<rparr>"
  by (simp add: sendMessage_def can_send_def Let_def addMessageToChat_def user_entry_def
      messages_frame_def)

lemma sendMessage_thrown:
  "can_send rt st \<Longrightarrow>
   sendMessage rt True st =
     st\<lparr>isProcessing := False, userInput_disabled := False, sendButton_disabled := False,
        chatMessages := chatMessages st @ [(''user'', Str (trim rt (userInput_value st))),
          (''assistant'', Str apology)],
        userInput_value := [], typing_visible := False,
        chatHistory := chatHistory st @ [user_entry (trim rt (userInput_value st))]\<rparr>"
  by (simp add: sendMessage_def can_send_def Let_def addMessageToChat_def user_entry_def
      release_def)

lemma step_while_processing:
  "isProcessing st \<Longrightarrow> \<not> is_Message ev \<Longrightarrow>
   isProcessing (step rt st ev) \<and> outbox (step rt st ev) = outbox st"
  by (cases ev) (simp_all add: sendMessage_def Let_def)

lemma run_while_processing:
  "isProcessing st \<Longrightarrow> \<forall>ev\<in>set evs. \<not> is_Message ev \<Longrightarrow>
   isProcessing (run rt st evs) \<and> outbox (run rt st evs) = outbox st"
proof (induction evs arbitrary: st)
  case Nil
  then show ?case by (simp add: run_def)
next
  case (Cons ev evs)
  from Cons.prems have p: "isProcessing (step rt st ev)" and o: "outbox (step rt st ev) = outbox st"
    using step_while_processing [of st ev rt] by simp_all
  from Cons.IH [OF p] Cons.prems(2) o show ?case
    by (simp add: run_def)
qed

lemma example_trim_hi: "trim example_rt '' hi '' = ''hi''"
  by (simp add: example_rt_def example_trim_def)

lemma ready_fields:
  "outbox ready = [] \<and> chatHistory ready = [greeting] \<and> chatMessages ready = []
   \<and> trim example_rt (userInput_value ready) = ''hi'' \<and> can_send example_rt ready"
  by (simp add: can_send_def ready_def script_load_def example_trim_hi blank_page_def)

text \<open>
  C7. \<^verbatim>\<open>sendMessage\<close> changes nothing when the trimmed input is empty, a send is
  in flight, or the socket is not ready. After a send that went out, a second call is a
  no-op, and whatever happens before a frame arrives (further calls of \<^verbatim>\<open>sendMessage\<close>,
  edits of the input, the socket opening or closing), the sockets have been handed exactly
  the one frame of the first call.
\<close>

theorem one_send_outstanding:
  "(\<not> can_send rt st \<longrightarrow> sendMessage rt b st = st)
   \<and> (can_send rt st \<longrightarrow>
        sendMessage rt b (sendMessage rt False st) = sendMessage rt False st)
   \<and> (can_send rt st \<and> (\<forall>ev\<in>set evs. \<not> is_Message ev) \<longrightarrow>
        outbox (run rt (sendMessage rt False st) evs) =
          outbox st @
            [messages_frame rt (chatHistory st @ [user_entry (trim rt (userInput_value st))])])"
proof (intro conjI impI)
  assume "\<not> can_send rt st"
  then show "sendMessage rt b st = st" by (rule sendMessage_blocked)
next
  assume "can_send rt st"
  then have "\<not> can_send rt (sendMessage rt False st)"
    by (simp add: sendMessage_sent) (simp add: can_send_def)
  then show "sendMessage rt b (sendMessage rt False st) = sendMessage rt False st"
    by (rule sendMessage_blocked)
next
  assume a: "can_send rt st \<and> (\<forall>ev\<in>set evs. \<not> is_Message ev)"
  then have p: "isProcessing (sendMessage rt False st)"
    by (simp add: sendMessage_sent)
  from a have "outbox (run rt (sendMessage rt False st) evs) = outbox (sendMessage rt False st)"
    using run_while_processing [OF p, of evs rt] by simp
  with a show "outbox (run rt (sendMessage rt False st) evs) =
      outbox st @
        [messages_frame rt (chatHistory st @ [user_entry (trim rt (userInput_value st))])]"
    by (simp add: sendMessage_sent)
qed

theorem one_send_outstanding_witness:
  "sendMessage example_rt False waiting = waiting
   \<and> outbox (run example_rt (sendMessage example_rt False ready)
        [Send False, Input ''again'', Send False]) =
      [messages_frame example_rt [greeting, user_entry ''hi'']]"
proof -
  have h1: "\<not> can_send example_rt waiting"
    by (simp add: can_send_def waiting_def)
  have h2: "can_send example_rt ready
      \<and> (\<forall>ev\<in>set [Send False, Input ''again'', Send False]. \<not> is_Message ev)"
    by (simp add: ready_fields)
  show ?thesis
    using one_send_outstanding [of example_rt waiting False]
      one_send_outstanding [of example_rt ready _ "[Send False, Input ''again'', Send False]"]
      h1 h2 ready_fields
    by simp
qed

text \<open>
  C9. When \<^verbatim>\<open>socket.send\<close> throws in a call that passed the guard, the user entry
  pushed before it stays in the conversation history, the apology is added to the visible
  chat log only, and nothing is sent; the next send that goes out carries the history
  with the failed user turn, followed by the new turn, and no apology entry.
\<close>

theorem failed_send_keeps_user_turn:
  assumes "can_send rt st"
  shows "chatHistory (sendMessage rt True st) =
           chatHistory st @ [user_entry (trim rt (userInput_value st))]
       \<and> chatMessages (sendMessage rt True st) =
           chatMessages st @ [(''user'', Str (trim rt (userInput_value st))),
             (''assistant'', Str apology)]
       \<and> outbox (sendMessage rt True st) = outbox st
       \<and> (trim rt s \<noteq> [] \<longrightarrow>
           outbox (sendMessage rt False ((sendMessage rt True st)\<lparr>userInput_value := s\<rparr>)) =
             outbox st @
               [messages_frame rt (chatHistory st @
                  [user_entry (trim rt (userInput_value st)), user_entry (trim rt s)])])"
proof -
  let ?st1 = "(sendMessage rt True st)\<lparr>userInput_value := s\<rparr>"
  have c: "trim rt s \<noteq> [] \<Longrightarrow> can_send rt ?st1"
    using assms by (simp add: sendMessage_thrown) (simp add: can_send_def)
  show ?thesis
    using assms c by (simp add: sendMessage_sent) (simp add: sendMessage_thrown)
qed

theorem failed_send_keeps_user_turn_witness:
  "chatHistory (sendMessage example_rt True ready) = [greeting, user_entry ''hi'']
   \<and> chatMessages (sendMessage example_rt True ready) =
       [(''user'', Str ''hi''), (''assistant'', Str apology)]
   \<and> outbox (sendMessage example_rt False
        ((sendMessage example_rt True ready)\<lparr>userInput_value := '' hi ''\<rparr>)) =
       [messages_frame example_rt [greeting, user_entry ''hi'', user_entry ''hi'']]"
proof -
  have h1: "can_send example_rt ready"
    by (simp add: ready_fields)
  have h2: "trim example_rt '' hi '' \<noteq> []"
    by (simp add: example_trim_hi)
  show ?thesis
    using failed_send_keeps_user_turn [OF h1, of "'' hi ''"] h2 ready_fields
    by (simp add: example_trim_hi)
qed

section \<open>The browser script: the conversation history\<close>












end
